theory Spec2Isabelle
  imports Main "HOL-Library.Sublist" "HOL-Library.AList"
begin

section \<open>Python values and strings\<close>

text \<open>
  Strings are lists of characters; a character stands for a Unicode code point below 256.
  Values that travel in argument bags and result payloads are JSON-shaped Python values
  (floating-point numbers are left out of the model). A Python \<^verbatim>\<open>dict\<close> with string
  keys is an association list in insertion order: \<open>map_of\<close> is the lookup and
  \<open>AList.update\<close> the assignment (an existing key keeps its place, a new key goes last).
\<close>

datatype pyval =
    PNone
  | PBool bool
  | PInt int
  | PStr string
  | PList "pyval list"
  | PDict "(string \<times> pyval) list"

type_synonym dict = "(string \<times> pyval) list"

text \<open>Truth value of a Python object, as the operator \<^verbatim>\<open>not\<close> reads it.\<close>

fun truthy :: "pyval \<Rightarrow> bool" where
  "truthy PNone = False"
| "truthy (PBool b) = b"
| "truthy (PInt i) = (i \<noteq> 0)"
| "truthy (PStr s) = (s \<noteq> [])"
| "truthy (PList xs) = (xs \<noteq> [])"
| "truthy (PDict kvs) = (kvs \<noteq> [])"

text \<open>
  \<^verbatim>\<open>str.lower()\<close> on code points below 256: the letters A to Z and the Latin-1 capitals
  (192 to 222 without the multiplication sign 215) move up by 32, every other character
  stays.
\<close>

definition lower_char :: "char \<Rightarrow> char" where
  "lower_char c =
     (let n = (of_char c :: nat) in
      if (65 \<le> n \<and> n \<le> 90) \<or> (192 \<le> n \<and> n \<le> 222 \<and> n \<noteq> 215)
      then char_of (n + 32) else c)"

definition lower :: "string \<Rightarrow> string" where
  "lower s = map lower_char s"

text \<open>\<^verbatim>\<open>t in s\<close> on strings: \<open>t\<close> starts at some position of \<open>s\<close>.\<close>

fun str_in :: "string \<Rightarrow> string \<Rightarrow> bool" where
  "str_in t [] = (t = [])"
| "str_in t (c # s) = (prefix t (c # s) \<or> str_in t s)"

text \<open>\<^verbatim>\<open>sep.join(ws)\<close>.\<close>

fun join :: "string \<Rightarrow> string list \<Rightarrow> string" where
  "join sep [] = []"
| "join sep [w] = w"
| "join sep (w # v # ws) = w @ sep @ join sep (v # ws)"

text \<open>\<^verbatim>\<open>str(n)\<close> for a natural number: its decimal digits.\<close>

definition digit_char :: "nat \<Rightarrow> char" where
  "digit_char d = char_of (48 + d)"

fun str_nat :: "nat \<Rightarrow> string" where
  "str_nat n = (if n < 10 then [digit_char n] else str_nat (n div 10) @ [digit_char (n mod 10)])"

declare str_nat.simps [simp del]

section \<open>The rule catalog and permit_matcher.py\<close>

text \<open>
  One record of \<^verbatim>\<open>rules['permits']\<close>; the fields carry the prefix \<open>p_\<close> because
  \<open>id\<close> is taken in HOL.
\<close>

record permit =
  p_id :: string
  p_name :: string
  p_triggers :: "string list"
  p_requiredFields :: "string list"
  p_template :: string

text \<open>The dictionary that \<^verbatim>\<open>identify_permits\<close> appends for a matching permit.\<close>

record permit_info =
  info_id :: string
  info_name :: string
  info_template :: string
  info_requiredFields :: "string list"

definition info_of :: "permit \<Rightarrow> permit_info" where
  "info_of p = \<lparr> info_id = p_id p, info_name = p_name p,
                 info_template = p_template p, info_requiredFields = p_requiredFields p \<rparr>"

text \<open>\<^verbatim>\<open>f"{project_description} {' '.join(work_types)}".lower()\<close>\<close>

definition search_text :: "string \<Rightarrow> string list \<Rightarrow> string" where
  "search_text project_description work_types =
     lower (project_description @ '' '' @ join '' '' work_types)"

text \<open>\<^verbatim>\<open>any(trigger.lower() in search_text for trigger in permit['triggers'])\<close>\<close>

fun any_trigger :: "string \<Rightarrow> string list \<Rightarrow> bool" where
  "any_trigger st [] = False"
| "any_trigger st (trigger # ts) = (if str_in (lower trigger) st then True else any_trigger st ts)"

text \<open>The loop over \<^verbatim>\<open>self.rules['permits']\<close>, appending to \<^verbatim>\<open>required_permits\<close>.\<close>

fun identify_loop :: "string \<Rightarrow> permit list \<Rightarrow> permit_info list \<Rightarrow> permit_info list" where
  "identify_loop st [] required_permits = required_permits"
| "identify_loop st (p # ps) required_permits =
     identify_loop st ps
       (if any_trigger st (p_triggers p) then required_permits @ [info_of p]
        else required_permits)"

definition identify_permits ::
  "permit list \<Rightarrow> string \<Rightarrow> string list option \<Rightarrow> permit_info list" where
  "identify_permits rules project_description work_types =
     (let wts = (case work_types of None \<Rightarrow> [] | Some ws \<Rightarrow> ws);
          st = search_text project_description wts
      in identify_loop st rules [])"

text \<open>
  \<^verbatim>\<open>get_permit_by_id\<close>: the first permit whose id equals the argument. The argument is
  \<open>None\<close> for Python's \<^verbatim>\<open>None\<close>, which equals no string.
\<close>

fun get_permit_by_id :: "permit list \<Rightarrow> string option \<Rightarrow> permit option" where
  "get_permit_by_id [] permit_id = None"
| "get_permit_by_id (p # ps) permit_id =
     (if Some (p_id p) = permit_id then Some p else get_permit_by_id ps permit_id)"

text \<open>The dictionaries of \<^verbatim>\<open>list_all_permits\<close>: id, name and triggers.\<close>

definition list_all_permits :: "permit list \<Rightarrow> (string \<times> string \<times> string list) list" where
  "list_all_permits rules = map (\<lambda>p. (p_id p, p_name p, p_triggers p)) rules"

section \<open>form_filler.py\<close>

text \<open>
  A reading of \<^verbatim>\<open>datetime.now()\<close>, and the two \<^verbatim>\<open>strftime\<close> formats the code uses.
  The fields \<^verbatim>\<open>%m %d %H %M %S\<close> are two digits wide, padded with a zero; \<^verbatim>\<open>%Y\<close> is the
  year in decimal (four digits from the year 1000 on).
\<close>

record datetime =
  dt_year :: nat
  dt_month :: nat
  dt_day :: nat
  dt_hour :: nat
  dt_minute :: nat
  dt_second :: nat

definition pad2 :: "nat \<Rightarrow> string" where
  "pad2 n = (if n < 10 then ''0'' @ str_nat n else str_nat n)"

text \<open>\<^verbatim>\<open>strftime('%m/%d/%Y')\<close>\<close>

definition strftime_mdY :: "datetime \<Rightarrow> string" where
  "strftime_mdY t = pad2 (dt_month t) @ ''/'' @ pad2 (dt_day t) @ ''/'' @ str_nat (dt_year t)"

text \<open>\<^verbatim>\<open>strftime('%Y%m%d-%H%M%S')\<close>\<close>

definition strftime_Ymd_HMS :: "datetime \<Rightarrow> string" where
  "strftime_Ymd_HMS t =
     str_nat (dt_year t) @ pad2 (dt_month t) @ pad2 (dt_day t) @ ''-'' @
     pad2 (dt_hour t) @ pad2 (dt_minute t) @ pad2 (dt_second t)"

text \<open>Exceptions, all of them subclasses of \<^verbatim>\<open>Exception\<close>, with their message.\<close>

datatype exn =
    ValueError string
  | FileNotFoundError string
  | AttributeError string
  | TypeError string
  | ExternalError string

text \<open>\<^verbatim>\<open>str(e)\<close>\<close>

fun str_exn :: "exn \<Rightarrow> string" where
  "str_exn (ValueError m) = m"
| "str_exn (FileNotFoundError m) = m"
| "str_exn (AttributeError m) = m"
| "str_exn (TypeError m) = m"
| "str_exn (ExternalError m) = m"

text \<open>
  What the code takes from outside, as parameters: the clock (\<open>now n\<close> is the reading
  of the \<open>n\<close>-th call of \<^verbatim>\<open>datetime.now()\<close>), the path operations of \<^verbatim>\<open>pathlib\<close>
  (\<open>templates_dir name\<close> is \<^verbatim>\<open>self.templates_dir / name\<close>, likewise \<open>output_dir\<close>;
  \<open>absolute\<close> is \<^verbatim>\<open>str(path.absolute())\<close>), the template engine (\<open>load_template\<close> is
  \<^verbatim>\<open>DocxTemplate(path)\<close>, \<open>render\<close> is \<^verbatim>\<open>doc.render(data)\<close>, \<open>save\<close> is
  \<^verbatim>\<open>doc.save(path)\<close> and yields the exception it raises, if any), and the layout of the
  two preview texts, whose symbols lie outside the character type.
\<close>

record validation =
  valid :: bool
  missingFields :: "string list"

record 'doc env =
  now :: "nat \<Rightarrow> datetime"
  templates_dir :: "string \<Rightarrow> string"
  output_dir :: "string \<Rightarrow> string"
  absolute :: "string \<Rightarrow> string"
  template_exists :: "string \<Rightarrow> bool"
  load_template :: "string \<Rightarrow> exn + 'doc"
  render :: "'doc \<Rightarrow> dict \<Rightarrow> exn + 'doc"
  save :: "string \<Rightarrow> 'doc \<Rightarrow> exn option"
  preview_layout :: "permit \<Rightarrow> dict \<Rightarrow> validation \<Rightarrow> datetime \<Rightarrow> datetime \<Rightarrow> string"
  preview_all_layout :: "(permit \<times> validation) list \<Rightarrow> dict \<Rightarrow> string"

text \<open>
  The state the code acts on: how many times the clock has been read, the calls of
  \<^verbatim>\<open>doc.render\<close> made so far (template path and payload), and the documents written,
  by path.
\<close>

record 'doc world =
  clock :: nat
  rendered :: "(string \<times> dict) list"
  files :: "(string \<times> 'doc) list"

text \<open>
  The dictionary display \<^verbatim>\<open>{**project_data, 'permitDate': ..., 'applicationDate': ...,
  'currentDate': ..., 'year': ...}\<close>, whose four values read the clock one after the other,
  starting at reading \<open>n\<close>.
\<close>

definition fill_data :: "'doc env \<Rightarrow> nat \<Rightarrow> dict \<Rightarrow> dict" where
  "fill_data env n project_data =
     AList.update ''year'' (PInt (int (dt_year (now env (n + 3)))))
       (AList.update ''currentDate'' (PStr (strftime_mdY (now env (n + 2))))
         (AList.update ''applicationDate'' (PStr (strftime_mdY (now env (n + 1))))
           (AList.update ''permitDate'' (PStr (strftime_mdY (now env n))) project_data)))"

definition output_filename :: "string \<Rightarrow> string \<Rightarrow> string" where
  "output_filename permit_id timestamp = permit_id @ ''-permit-'' @ timestamp @ ''.docx''"

definition fill_permit ::
  "'doc env \<Rightarrow> string \<Rightarrow> string \<Rightarrow> string \<Rightarrow> dict \<Rightarrow> 'doc world \<Rightarrow> (exn + dict) \<times> 'doc world" where
  "fill_permit env template_name permit_id permit_name project_data w =
     (let template_path = templates_dir env template_name in
      if \<not> template_exists env template_path
      then (Inl (FileNotFoundError (''Template not found: '' @ template_path)), w)
      else
        case load_template env template_path of
          Inl e \<Rightarrow> (Inl e, w)
        | Inr doc \<Rightarrow>
            let data = fill_data env (clock w) project_data;
                w1 = w\<lparr> clock := clock w + 4,
                        rendered := rendered w @ [(template_path, data)] \<rparr>
            in case render env doc data of
                 Inl e \<Rightarrow> (Inl e, w1)
               | Inr doc' \<Rightarrow>
                   let timestamp = strftime_Ymd_HMS (now env (clock w1));
                       w2 = w1\<lparr> clock := clock w1 + 1 \<rparr>;
                       filename = output_filename permit_id timestamp;
                       output_path = output_dir env filename
                   in case save env output_path doc' of
                        Some e \<Rightarrow> (Inl e, w2)
                      | None \<Rightarrow>
                          (Inr [(''success'', PBool True),
                                (''permitName'', PStr permit_name),
                                (''outputFile'', PStr filename),
                                (''outputPath'', PStr (absolute env output_path)),
                                (''message'', PStr (permit_name @ '' has been filled and saved''))],
                           w2\<lparr> files := AList.update output_path doc' (files w2) \<rparr>))"

text \<open>
  \<^verbatim>\<open>field not in project_data or not project_data[field]\<close>: the subscript is only
  evaluated for a key that is present.
\<close>

definition field_missing :: "dict \<Rightarrow> string \<Rightarrow> bool" where
  "field_missing project_data field =
     (case map_of project_data field of None \<Rightarrow> True | Some v \<Rightarrow> \<not> truthy v)"

definition validate_required_fields :: "dict \<Rightarrow> string list \<Rightarrow> validation" where
  "validate_required_fields project_data required_fields =
     (let missing_fields = filter (field_missing project_data) required_fields
      in \<lparr> valid = (length missing_fields = 0), missingFields = missing_fields \<rparr>)"

section \<open>server.py\<close>

text \<open>
  The content of a response: a \<^verbatim>\<open>TextContent\<close> whose text is either
  \<^verbatim>\<open>json.dumps(v, indent=2)\<close> of a value \<open>v\<close> (\<open>JsonText v\<close>) or a plain string.
\<close>

datatype content = JsonText pyval | PlainText string

text \<open>
  The argument bag of a call, with the keys and types of the tool schemas; a field is
  \<open>None\<close> when the bag has no such key. The bag itself may be \<^verbatim>\<open>None\<close>.
\<close>

record arguments =
  projectDescription :: "string option"
  workTypes :: "string list option"
  permitId :: "string option"
  projectData :: "dict option"

text \<open>\<^verbatim>\<open>arguments.get(key, default)\<close>\<close>

fun get_default :: "'a option \<Rightarrow> 'a \<Rightarrow> 'a" where
  "get_default None d = d"
| "get_default (Some v) d = v"

text \<open>\<^verbatim>\<open>f"{permit_id}"\<close> for a string or \<^verbatim>\<open>None\<close>.\<close>

fun str_opt :: "string option \<Rightarrow> string" where
  "str_opt None = ''None''"
| "str_opt (Some s) = s"

fun val_opt :: "string option \<Rightarrow> pyval" where
  "val_opt None = PNone"
| "val_opt (Some s) = PStr s"

definition none_has_no_get :: exn where
  "none_has_no_get = AttributeError
     (CHR 0x27 # ''NoneType'' @ CHR 0x27 # '' object has no attribute '' @ CHR 0x27 # ''get'' @ [CHR 0x27])"

definition none_not_subscriptable :: exn where
  "none_not_subscriptable = TypeError
     (CHR 0x27 # ''NoneType'' @ CHR 0x27 # '' object is not subscriptable'')"

definition info_val :: "permit_info \<Rightarrow> pyval" where
  "info_val i = PDict [(''id'', PStr (info_id i)), (''name'', PStr (info_name i)),
                       (''template'', PStr (info_template i)),
                       (''requiredFields'', PList (map PStr (info_requiredFields i)))]"

definition listing_val :: "string \<times> string \<times> string list \<Rightarrow> pyval" where
  "listing_val e = (case e of (i, n, ts) \<Rightarrow>
     PDict [(''id'', PStr i), (''name'', PStr n), (''triggers'', PList (map PStr ts))])"

text \<open>The loop of \<^verbatim>\<open>preview_all_permits\<close>: each permit is looked up again and validated.\<close>

fun preview_all_loop ::
  "permit list \<Rightarrow> dict \<Rightarrow> permit_info list \<Rightarrow> exn + (permit \<times> validation) list" where
  "preview_all_loop rules project_data [] = Inr []"
| "preview_all_loop rules project_data (permit_info # rest) =
     (case get_permit_by_id rules (Some (info_id permit_info)) of
        None \<Rightarrow> Inl none_not_subscriptable
      | Some permit \<Rightarrow>
          (case preview_all_loop rules project_data rest of
             Inl e \<Rightarrow> Inl e
           | Inr entries \<Rightarrow>
               Inr ((permit, validate_required_fields project_data (p_requiredFields permit))
                    # entries)))"

definition missing_entry :: "permit \<Rightarrow> string list \<Rightarrow> pyval" where
  "missing_entry permit missing =
     PDict [(''success'', PBool False),
            (''permitId'', PStr (p_id permit)),
            (''permitName'', PStr (p_name permit)),
            (''error'', PStr ''Missing required fields''),
            (''missingFields'', PList (map PStr missing))]"

definition error_entry :: "permit_info \<Rightarrow> exn \<Rightarrow> pyval" where
  "error_entry permit_info e =
     PDict [(''success'', PBool False),
            (''permitId'', PStr (info_id permit_info)),
            (''error'', PStr (str_exn e))]"

text \<open>
  The body of the \<^verbatim>\<open>try\<close> in the loop of \<^verbatim>\<open>fill_all_required_permits\<close>: the entry it
  appends, or the exception it raises.
\<close>

definition fill_one ::
  "'doc env \<Rightarrow> permit list \<Rightarrow> dict \<Rightarrow> permit_info \<Rightarrow> 'doc world \<Rightarrow> (exn + pyval) \<times> 'doc world" where
  "fill_one env rules project_data permit_info w =
     (case get_permit_by_id rules (Some (info_id permit_info)) of
        None \<Rightarrow> (Inl none_not_subscriptable, w)
      | Some permit \<Rightarrow>
          let validation = validate_required_fields project_data (p_requiredFields permit) in
          if \<not> valid validation
          then (Inr (missing_entry permit (missingFields validation)), w)
          else
            (case fill_permit env (p_template permit) (p_id permit) (p_name permit) project_data w of
               (Inl e, w') \<Rightarrow> (Inl e, w')
             | (Inr result, w') \<Rightarrow> (Inr (PDict result), w')))"

text \<open>The loop itself: one entry per permit, the \<^verbatim>\<open>except\<close> clause turning an exception into an entry.\<close>

fun fill_all_loop ::
  "'doc env \<Rightarrow> permit list \<Rightarrow> dict \<Rightarrow> permit_info list \<Rightarrow> pyval list \<Rightarrow> 'doc world
     \<Rightarrow> pyval list \<times> 'doc world" where
  "fill_all_loop env rules project_data [] results w = (results, w)"
| "fill_all_loop env rules project_data (permit_info # rest) results w =
     (case fill_one env rules project_data permit_info w of
        (Inr entry, w') \<Rightarrow> fill_all_loop env rules project_data rest (results @ [entry]) w'
      | (Inl e, w') \<Rightarrow>
          fill_all_loop env rules project_data rest (results @ [error_entry permit_info e]) w')"

text \<open>The \<^verbatim>\<open>try\<close> block of \<^verbatim>\<open>handle_call_tool\<close>: the chain of comparisons on the tool name.\<close>

definition dispatch ::
  "'doc env \<Rightarrow> permit list \<Rightarrow> string \<Rightarrow> arguments option \<Rightarrow> 'doc world
     \<Rightarrow> (exn + content list) \<times> 'doc world" where
  "dispatch env rules name arguments w =
    (if name = ''identify_required_permits'' then
       (case arguments of
          None \<Rightarrow> (Inl none_has_no_get, w)
        | Some a \<Rightarrow>
            let project_description = get_default (projectDescription a) [];
                work_types = get_default (workTypes a) [];
                required_permits = identify_permits rules project_description (Some work_types);
                result = PDict
                  [(''requiredPermits'', PList (map info_val required_permits)),
                   (''count'', PInt (int (length required_permits))),
                   (''message'', PStr
                      (if required_permits \<noteq> []
                       then ''Found '' @ str_nat (length required_permits) @ '' required permit(s)''
                       else ''No permits required based on description''))]
            in (Inr [JsonText result], w))
     else if name = ''preview_permit'' then
       (case arguments of
          None \<Rightarrow> (Inl none_has_no_get, w)
        | Some a \<Rightarrow>
            let permit_id = permitId a;
                project_data = get_default (projectData a) []
            in case get_permit_by_id rules permit_id of
                 None \<Rightarrow> (Inl (ValueError (''Permit not found: '' @ str_opt permit_id)), w)
               | Some permit \<Rightarrow>
                   let validation = validate_required_fields project_data (p_requiredFields permit)
                   in (Inr [PlainText (preview_layout env permit project_data validation
                                         (now env (clock w)) (now env (clock w + 1)))],
                       w\<lparr> clock := clock w + 2 \<rparr>))
     else if name = ''preview_all_permits'' then
       (case arguments of
          None \<Rightarrow> (Inl none_has_no_get, w)
        | Some a \<Rightarrow>
            let project_description = get_default (projectDescription a) [];
                project_data = get_default (projectData a) [];
                required_permits = identify_permits rules project_description None
            in if required_permits = []
               then (Inr [PlainText ''No permits required for this project description.''], w)
               else (case preview_all_loop rules project_data required_permits of
                       Inl e \<Rightarrow> (Inl e, w)
                     | Inr entries \<Rightarrow>
                         (Inr [PlainText (preview_all_layout env entries project_data)], w)))
     else if name = ''fill_permit_form'' then
       (case arguments of
          None \<Rightarrow> (Inl none_has_no_get, w)
        | Some a \<Rightarrow>
            let permit_id = permitId a;
                project_data = get_default (projectData a) []
            in case get_permit_by_id rules permit_id of
                 None \<Rightarrow> (Inl (ValueError (''Permit not found: '' @ str_opt permit_id)), w)
               | Some permit \<Rightarrow>
                   let validation = validate_required_fields project_data (p_requiredFields permit)
                   in if \<not> valid validation
                      then (Inr [JsonText (PDict
                              [(''success'', PBool False),
                               (''error'', PStr ''Missing required fields''),
                               (''missingFields'', PList (map PStr (missingFields validation))),
                               (''permitName'', PStr (p_name permit))])], w)
                      else
                        (case fill_permit env (p_template permit) (p_id permit) (p_name permit)
                                project_data w of
                           (Inl e, w') \<Rightarrow> (Inl e, w')
                         | (Inr result, w') \<Rightarrow> (Inr [JsonText (PDict result)], w')))
     else if name = ''fill_all_required_permits'' then
       (case arguments of
          None \<Rightarrow> (Inl none_has_no_get, w)
        | Some a \<Rightarrow>
            let project_description = get_default (projectDescription a) [];
                work_types = get_default (workTypes a) [];
                project_data = get_default (projectData a) [];
                required_permits = identify_permits rules project_description (Some work_types)
            in if required_permits = []
               then (Inr [PlainText ''No permits required for this project''], w)
               else
                 (case fill_all_loop env rules project_data required_permits [] w of
                    (results, w') \<Rightarrow>
                      (Inr [JsonText (PDict
                         [(''totalPermits'', PInt (int (length results))),
                          (''results'', PList results),
                          (''message'', PStr ''All required permits have been processed'')])],
                       w')))
     else if name = ''list_available_permits'' then
       (let permits = list_all_permits rules
        in (Inr [JsonText (PDict
                  [(''permits'', PList (map listing_val permits)),
                   (''count'', PInt (int (length permits)))])], w))
     else if name = ''validate_permit_data'' then
       (case arguments of
          None \<Rightarrow> (Inl none_has_no_get, w)
        | Some a \<Rightarrow>
            let permit_id = permitId a;
                project_data = get_default (projectData a) []
            in case get_permit_by_id rules permit_id of
                 None \<Rightarrow> (Inl (ValueError (''Permit not found: '' @ str_opt permit_id)), w)
               | Some permit \<Rightarrow>
                   let validation = validate_required_fields project_data (p_requiredFields permit)
                   in (Inr [JsonText (PDict
                         [(''permitId'', val_opt permit_id),
                          (''permitName'', PStr (p_name permit)),
                          (''valid'', PBool (valid validation)),
                          (''missingFields'', PList (map PStr (missingFields validation))),
                          (''requiredFields'', PList (map PStr (p_requiredFields permit)))])], w))
     else (Inl (ValueError (''Unknown tool: '' @ name)), w))"

text \<open>
  \<^verbatim>\<open>handle_call_tool\<close>: the \<^verbatim>\<open>try\<close> block under its clause \<^verbatim>\<open>except Exception as e\<close>.
  The outcome is \<open>Inr\<close> of the returned list, or \<open>Inl\<close> of an exception that leaves
  the function.
\<close>

definition handle_call_tool ::
  "'doc env \<Rightarrow> permit list \<Rightarrow> string \<Rightarrow> arguments option \<Rightarrow> 'doc world
     \<Rightarrow> (exn + content list) \<times> 'doc world" where
  "handle_call_tool env rules name arguments w =
     (case dispatch env rules name arguments w of
        (Inr response, w') \<Rightarrow> (Inr response, w')
      | (Inl e, w') \<Rightarrow> (Inr [PlainText (''Error: '' @ str_exn e)], w'))"

text \<open>
  The resolver as the specification words it: the search string is the description
  followed directly by the space-joined work types, and a definition is selected when
  one of its lower-cased triggers occurs in it.
\<close>

definition spec_search_text :: "string \<Rightarrow> string list \<Rightarrow> string" where
  "spec_search_text description work_type_tags = lower (description @ join '' '' work_type_tags)"

definition spec_selected :: "string \<Rightarrow> string list \<Rightarrow> permit \<Rightarrow> bool" where
  "spec_selected description work_type_tags p =
     list_ex (\<lambda>t. str_in (lower t) (spec_search_text description work_type_tags)) (p_triggers p)"

definition no_empty_trigger :: "permit list \<Rightarrow> bool" where
  "no_empty_trigger rules = list_all (\<lambda>p. list_all (\<lambda>t. t \<noteq> []) (p_triggers p)) rules"

text \<open>The names that \<^verbatim>\<open>handle_list_tools\<close> announces.\<close>

definition tool_names :: "string list" where
  "tool_names = [''identify_required_permits'', ''preview_permit'', ''preview_all_permits'',
     ''fill_permit_form'', ''fill_all_required_permits'', ''list_available_permits'',
     ''validate_permit_data'']"

text \<open>The four keys that \<^verbatim>\<open>fill_permit\<close> computes itself.\<close>

definition reserved_keys :: "string set" where
  "reserved_keys = {''permitDate'', ''applicationDate'', ''currentDate'', ''year''}"

text \<open>
  What the batch operation owes one resolved permit, met in the world \<open>w\<close>: an entry
  of its own, and the world \<open>w'\<close> it leaves. The permit is the catalog's permit of
  that id. When one of its required fields is missing, the entry is the failure entry
  with \<open>success\<close> false and these missing fields, and the world stays as it was.
  Otherwise the permit is filled in \<open>w\<close>: when that call returns, the entry is its result
  and \<open>w'\<close> the world it leaves; when it raises, the entry is the failure entry with
  \<open>success\<close> false and the message of the exception raised, and \<open>w'\<close> is the world at the
  point of the exception.
\<close>

definition permit_entry ::
  "'doc env \<Rightarrow> permit list \<Rightarrow> dict \<Rightarrow> permit_info \<Rightarrow> 'doc world \<Rightarrow> pyval \<Rightarrow> 'doc world \<Rightarrow> bool" where
  "permit_entry env rules project_data permit_info w entry w' =
     (\<exists>permit. get_permit_by_id rules (Some (info_id permit_info)) = Some permit \<and>
        (if filter (field_missing project_data) (p_requiredFields permit) \<noteq> []
         then entry = PDict [(''success'', PBool False),
                             (''permitId'', PStr (p_id permit)),
                             (''permitName'', PStr (p_name permit)),
                             (''error'', PStr ''Missing required fields''),
                             (''missingFields'', PList (map PStr
                                (filter (field_missing project_data) (p_requiredFields permit))))]
              \<and> w' = w
         else (case fill_permit env (p_template permit) (p_id permit) (p_name permit)
                      project_data w of
                 (Inr result, w1) \<Rightarrow> entry = PDict result \<and> w' = w1
               | (Inl e, w1) \<Rightarrow>
                   entry = PDict [(''success'', PBool False),
                                  (''permitId'', PStr (info_id permit_info)),
                                  (''error'', PStr (str_exn e))]
                   \<and> w' = w1)))"

text \<open>
  The permits processed in turn: each gets its entry in the world the one before it
  left, whatever the outcome of the ones before, and the entries come in the order of
  the permits.
\<close>

inductive processed_in_turn ::
  "'doc env \<Rightarrow> permit list \<Rightarrow> dict \<Rightarrow> permit_info list \<Rightarrow> 'doc world \<Rightarrow> pyval list \<Rightarrow> 'doc world \<Rightarrow> bool"
  for env :: "'doc env" and rules :: "permit list" and project_data :: dict
where
  none_left: "processed_in_turn env rules project_data [] w [] w"
| next_permit:
    "permit_entry env rules project_data permit_info w entry w1 \<Longrightarrow>
     processed_in_turn env rules project_data rest w1 entries w' \<Longrightarrow>
     processed_in_turn env rules project_data (permit_info # rest) w (entry # entries) w'"

text \<open>
  The readings a running clock gives: a four-digit year, a month, a day of the month
  and a time of day.
\<close>

definition clock_reading :: "datetime \<Rightarrow> bool" where
  "clock_reading t \<longleftrightarrow>
     1000 \<le> dt_year t \<and> dt_year t \<le> 9999 \<and> 1 \<le> dt_month t \<and> dt_month t \<le> 12 \<and>
     1 \<le> dt_day t \<and> dt_day t \<le> 31 \<and> dt_hour t \<le> 23 \<and> dt_minute t \<le> 59 \<and> dt_second t \<le> 59"

section \<open>A small catalog and environment\<close>

definition electrical :: permit where
  "electrical = \<lparr> p_id = ''electrical'', p_name = ''Electrical Permit'',
     p_triggers = [''electrical work'', ''wiring''],
     p_requiredFields = [''ownerName'', ''electricianLicense''],
     p_template = ''electrical.docx'' \<rparr>"

definition building :: permit where
  "building = \<lparr> p_id = ''building'', p_name = ''Building Permit'',
     p_triggers = [''construction'', ''Upgrade''],
     p_requiredFields = [''ownerName''],
     p_template = ''building.docx'' \<rparr>"

definition hvac :: permit where
  "hvac = \<lparr> p_id = ''hvac'', p_name = ''HVAC Permit'',
     p_triggers = [''hvac''],
     p_requiredFields = [''ownerName''],
     p_template = ''hvac.docx'' \<rparr>"

definition general :: permit where
  "general = \<lparr> p_id = ''general'', p_name = ''General Permit'',
     p_triggers = ['' ''],
     p_requiredFields = [''ownerName''],
     p_template = ''general.docx'' \<rparr>"

text \<open>
  An environment whose clock stands at 7 March 2024, 10:15:02, whose templates all
  exist, and whose rendered document is the template path with the payload.
\<close>

definition example_env :: "(string \<times> dict) env" where
  "example_env = \<lparr>
     now = (\<lambda>n. \<lparr> dt_year = 2024, dt_month = 3, dt_day = 7,
                     dt_hour = 10, dt_minute = 15, dt_second = 2 \<rparr>),
     templates_dir = (\<lambda>name. ''templates/'' @ name),
     output_dir = (\<lambda>name. ''output/'' @ name),
     absolute = (\<lambda>path. ''/srv/permits/'' @ path),
     template_exists = (\<lambda>path. True),
     load_template = (\<lambda>path. Inr (path, [])),
     render = (\<lambda>doc data. Inr (fst doc, data)),
     save = (\<lambda>path doc. None),
     preview_layout = (\<lambda>permit data v t1 t2. p_name permit),
     preview_all_layout = (\<lambda>entries data. concat (map (\<lambda>e. p_name (fst e)) entries)) \<rparr>"

definition example_world :: "(string \<times> dict) world" where
  "example_world = \<lparr> clock = 0, rendered = [], files = [] \<rparr>"

definition jane :: dict where
  "jane = [(''ownerName'', PStr ''Jane''), (''year'', PStr ''1999''), (''note'', PInt 0)]"

definition example_arguments :: arguments where
  "example_arguments = \<lparr> projectDescription = Some ''Need wiring upgrade'', workTypes = None,
      permitId = Some ''electrical'', projectData = Some jane \<rparr>"

text \<open>
  The same environment with a disk that is full for the building permit: saving its
  document raises. A call for wiring, construction and HVAC work resolves three permits.
\<close>

definition flaky_env :: "(string \<times> dict) env" where
  "flaky_env = example_env
     \<lparr> save := (\<lambda>path doc. if path = ''output/building-permit-20240307-101502.docx''
                            then Some (ExternalError ''disk full'') else None) \<rparr>"

definition batch_arguments :: arguments where
  "batch_arguments = \<lparr> projectDescription = Some ''Need wiring upgrade and HVAC'',
      workTypes = Some [''construction''], permitId = None, projectData = Some jane \<rparr>"

section \<open>Facts about strings\<close>

lemma str_in_sublist: "str_in t s \<longleftrightarrow> sublist t s"
  by (induction s) (simp_all add: sublist_Cons_right)

lemma any_trigger_iff: "any_trigger st ts \<longleftrightarrow> (\<exists>t \<in> set ts. sublist (lower t) st)"
  by (induction ts) (simp_all add: str_in_sublist)

lemma lower_char_space: "lower_char c = CHR '' '' \<longleftrightarrow> c = CHR '' ''"
proof
  assume h: "lower_char c = CHR '' ''"
  show "c = CHR '' ''"
  proof (rule ccontr)
    assume n: "c \<noteq> CHR '' ''"
    define k where "k = (of_char c :: nat)"
    have k256: "k < 256" unfolding k_def by simp
    from h n have up: "(65 \<le> k \<and> k \<le> 90) \<or> (192 \<le> k \<and> k \<le> 222 \<and> k \<noteq> 215)"
      and eq: "char_of (k + 32) = CHR '' ''"
      unfolding lower_char_def k_def Let_def by (auto split: if_splits)
    from eq have "(of_char (char_of (k + 32) :: char) :: nat) = of_char CHR '' ''" by simp
    then have "(k + 32) mod 256 = 32" by simp
    with up show False by auto
  qed
next
  assume "c = CHR '' ''"
  then show "lower_char c = CHR '' ''" by (simp add: lower_char_def)
qed

lemma lower_eq_Nil: "lower t = [] \<longleftrightarrow> t = []"
  by (simp add: lower_def)

lemma lower_eq_space: "lower t = '' '' \<longleftrightarrow> t = '' ''"
  by (cases t) (auto simp: lower_def lower_char_space)

lemma sublist_space: "sublist t '' '' \<longleftrightarrow> t = [] \<or> t = '' ''"
  by (cases t) (auto simp: sublist_Cons_right sublist_code)

section \<open>Permit identification\<close>

lemma identify_loop_filter:
  "identify_loop st ps acc = acc @ map info_of (filter (\<lambda>p. any_trigger st (p_triggers p)) ps)"
  by (induction ps arbitrary: acc) simp_all

lemma search_text_empty: "search_text [] [] = '' ''"
  by (simp add: search_text_def lower_def lower_char_space)

text \<open>
  Claim C1, as amended. The search string of \<^verbatim>\<open>identify_permits\<close> is the description, one
  space, and the space-joined work types, lower-cased. The result is the catalog, in
  catalog order, restricted to the definitions one of whose lower-cased triggers occurs
  in that string, each entry giving one result entry.
\<close>

theorem identify_permits_characterisation:
  "identify_permits rules d wt =
     map info_of (filter (\<lambda>p. \<exists>t \<in> set (p_triggers p).
        sublist (lower t)
          (lower (d @ '' '' @ join '' '' (case wt of None \<Rightarrow> [] | Some ws \<Rightarrow> ws)))) rules)"
  by (simp add: identify_permits_def search_text_def identify_loop_filter any_trigger_iff)

theorem identify_permits_characterisation_witness:
  "identify_permits [hvac, electrical] ''Need WIRING upgrade'' None = [info_of electrical]"
proof -
  have "identify_permits [hvac, electrical] ''Need WIRING upgrade'' None =
     map info_of (filter (\<lambda>p. \<exists>t \<in> set (p_triggers p).
        sublist (lower t)
          (lower (''Need WIRING upgrade'' @ '' '' @
             join '' '' (case None of None \<Rightarrow> [] | Some ws \<Rightarrow> ws)))) [hvac, electrical])"
    by (rule identify_permits_characterisation)
  also have "\<dots> = [info_of electrical]"
    by code_simp
  finally show ?thesis .
qed

text \<open>
  Claim C1 as the specification states it, with the search string the plain
  concatenation of description and joined work types, fails: for the description
  \<open>hv\<close> and the work type \<open>ac\<close> the trigger \<open>hvac\<close> occurs in \<open>hvac\<close>, but the code
  searches \<open>hv ac\<close> and returns nothing.
\<close>

theorem identify_permits_plain_concatenation_counterexample:
  "\<not> (info_of hvac \<in> set (identify_permits [hvac] ''hv'' (Some [''ac'']))
        \<longleftrightarrow> spec_selected ''hv'' [''ac''] hvac)"
  by code_simp

text \<open>
  Claim C3, as amended. With an empty description and no work types the search string
  is a single space, so the result is empty for every catalog in which no trigger is
  the empty string or the one-space string.
\<close>

theorem identify_permits_empty_input:
  assumes "\<forall>p \<in> set rules. \<forall>t \<in> set (p_triggers p). t \<noteq> [] \<and> t \<noteq> '' ''"
  shows "identify_permits rules [] (Some []) = [] \<and> identify_permits rules [] None = []"
proof -
  have "filter (\<lambda>p. any_trigger '' '' (p_triggers p)) rules = []"
    using assms
    by (auto simp: filter_empty_conv any_trigger_iff sublist_space lower_eq_Nil lower_eq_space)
  then show ?thesis
    by (simp add: identify_permits_def identify_loop_filter search_text_empty)
qed

theorem identify_permits_empty_input_witness:
  "list_all (\<lambda>p. list_all (\<lambda>t. t \<noteq> [] \<and> t \<noteq> '' '') (p_triggers p)) [electrical, building]
   \<and> identify_permits [electrical, building] [] (Some []) = []
   \<and> identify_permits [electrical, building] [] None = []"
proof -
  have h: "\<forall>p \<in> set [electrical, building]. \<forall>t \<in> set (p_triggers p). t \<noteq> [] \<and> t \<noteq> '' ''"
    by (simp add: electrical_def building_def)
  have l: "list_all (\<lambda>p. list_all (\<lambda>t. t \<noteq> [] \<and> t \<noteq> '' '') (p_triggers p)) [electrical, building]"
    by (simp add: electrical_def building_def)
  from identify_permits_empty_input [OF h] l show ?thesis by blast
qed

text \<open>
  Claim C3 as the specification states it fails: the catalog whose only trigger is
  one space has no empty trigger, and the empty input selects its permit.
\<close>

theorem identify_permits_empty_input_counterexample:
  "no_empty_trigger [general] \<and> identify_permits [general] [] (Some []) \<noteq> []"
  by code_simp

section \<open>Field validation\<close>

lemma falsy_cases:
  "\<not> truthy v \<longleftrightarrow> v \<in> {PNone, PBool False, PInt 0, PStr [], PList [], PDict []}"
  by (cases v) auto

lemma field_missing_iff:
  "field_missing D f \<longleftrightarrow>
     map_of D f = None \<or>
     (\<exists>v. map_of D f = Some v \<and> v \<in> {PNone, PBool False, PInt 0, PStr [], PList [], PDict []})"
  by (cases "map_of D f") (simp_all add: field_missing_def falsy_cases)

lemma valid_iff: "valid (validate_required_fields D R) \<longleftrightarrow> (\<forall>f \<in> set R. \<not> field_missing D f)"
  by (simp add: validate_required_fields_def Let_def filter_empty_conv)

text \<open>
  Claim C2. The missing fields are the required fields, in their order, that the data
  has no entry for or maps to a false value (\<^verbatim>\<open>None\<close>, \<^verbatim>\<open>False\<close>, zero, the empty string,
  list or dictionary); the data is valid exactly when that list is empty.
\<close>

theorem validate_required_fields_missing:
  "missingFields (validate_required_fields D R) =
     filter (\<lambda>f. map_of D f = None \<or>
                 (\<exists>v. map_of D f = Some v \<and>
                      v \<in> {PNone, PBool False, PInt 0, PStr [], PList [], PDict []})) R
   \<and> (valid (validate_required_fields D R) \<longleftrightarrow> missingFields (validate_required_fields D R) = [])"
  by (simp add: validate_required_fields_def Let_def field_missing_iff[abs_def])

theorem validate_required_fields_missing_witness:
  "missingFields (validate_required_fields jane [''ownerName'', ''electricianLicense'', ''note''])
     = [''electricianLicense'', ''note'']
   \<and> \<not> valid (validate_required_fields jane [''ownerName'', ''electricianLicense'', ''note''])"
proof -
  have m: "missingFields (validate_required_fields jane [''ownerName'', ''electricianLicense'', ''note''])
       = [''electricianLicense'', ''note'']"
    by code_simp
  from validate_required_fields_missing [of jane "[''ownerName'', ''electricianLicense'', ''note'']"]
  have "valid (validate_required_fields jane [''ownerName'', ''electricianLicense'', ''note''])
     \<longleftrightarrow> missingFields (validate_required_fields jane [''ownerName'', ''electricianLicense'', ''note'']) = []"
    by blast
  with m show ?thesis by simp
qed

section \<open>The dispatch boundary\<close>

lemma get_permit_by_id_None: "get_permit_by_id rules (Some pid) = None \<longleftrightarrow> pid \<notin> p_id ` set rules"
  by (induction rules) auto

lemma get_permit_by_id_no_id [simp]: "get_permit_by_id rules None = None"
  by (induction rules) auto

lemma get_permit_by_id_Some: "get_permit_by_id rules pid = Some p \<Longrightarrow> p \<in> set rules \<and> pid = Some (p_id p)"
  by (induction rules) (auto split: if_splits)

text \<open>
  Claim C5. When the permit of a \<^verbatim>\<open>fill_permit_form\<close> call exists and a required field
  is missing from the project data, the call returns the payload with \<open>success\<close> false,
  the error text, the missing fields and the permit name; no exception leaves the call
  and the world (clock, render calls, written files) is the one before the call.
\<close>

theorem fill_permit_form_validation_failure:
  assumes "get_permit_by_id rules (permitId a) = Some permit"
      and "\<exists>f \<in> set (p_requiredFields permit). field_missing (get_default (projectData a) []) f"
  shows "handle_call_tool env rules ''fill_permit_form'' (Some a) w =
           (Inr [JsonText (PDict
              [(''success'', PBool False),
               (''error'', PStr ''Missing required fields''),
               (''missingFields'', PList (map PStr
                   (filter (field_missing (get_default (projectData a) [])) (p_requiredFields permit)))),
               (''permitName'', PStr (p_name permit))])], w)"
proof -
  let ?v = "validate_required_fields (get_default (projectData a) []) (p_requiredFields permit)"
  from assms(2) have nv: "\<not> valid ?v" by (simp add: valid_iff)
  have mf: "missingFields ?v = filter (field_missing (get_default (projectData a) [])) (p_requiredFields permit)"
    by (simp add: validate_required_fields_def Let_def)
  have "dispatch env rules ''fill_permit_form'' (Some a) w =
           (Inr [JsonText (PDict
              [(''success'', PBool False),
               (''error'', PStr ''Missing required fields''),
               (''missingFields'', PList (map PStr (missingFields ?v))),
               (''permitName'', PStr (p_name permit))])], w)"
    using assms(1) nv by (simp add: dispatch_def Let_def)
  then show ?thesis by (simp add: handle_call_tool_def mf)
qed

theorem fill_permit_form_validation_failure_witness:
  "handle_call_tool example_env [electrical, building] ''fill_permit_form''
       (Some example_arguments) example_world =
     (Inr [JsonText (PDict
        [(''success'', PBool False),
         (''error'', PStr ''Missing required fields''),
         (''missingFields'', PList [PStr ''electricianLicense'']),
         (''permitName'', PStr ''Electrical Permit'')])], example_world)"
proof -
  have g: "get_permit_by_id [electrical, building] (permitId example_arguments) = Some electrical"
    by (simp add: example_arguments_def electrical_def)
  have m: "filter (field_missing (get_default (projectData example_arguments) []))
             (p_requiredFields electrical) = [''electricianLicense'']"
    by (simp add: example_arguments_def electrical_def jane_def field_missing_def)
  have e: "\<exists>f \<in> set (p_requiredFields electrical).
             field_missing (get_default (projectData example_arguments) []) f"
    by (simp add: example_arguments_def electrical_def jane_def field_missing_def)
  have n: "p_name electrical = ''Electrical Permit''"
    by (simp add: electrical_def)
  from fill_permit_form_validation_failure [OF g e, of example_env example_world]
  show ?thesis by (simp add: m n)
qed

text \<open>
  Claim C7. A \<^verbatim>\<open>fill_permit_form\<close> call whose permit id is the id of no permit of the
  catalog returns the text \<open>Error: Permit not found: \<close> followed by the id, and leaves
  the world unchanged: nothing is rendered, nothing is written.
\<close>

theorem fill_permit_form_unknown_id:
  assumes "permitId a = Some pid" and "pid \<notin> p_id ` set rules"
  shows "handle_call_tool env rules ''fill_permit_form'' (Some a) w =
           (Inr [PlainText (''Error: Permit not found: '' @ pid)], w)
         \<and> sublist ''Permit not found'' (''Error: Permit not found: '' @ pid)"
proof -
  from assms have "get_permit_by_id rules (permitId a) = None" by (simp add: get_permit_by_id_None)
  then have "dispatch env rules ''fill_permit_form'' (Some a) w =
      (Inl (ValueError (''Permit not found: '' @ str_opt (permitId a))), w)"
    by (simp add: dispatch_def Let_def)
  then have 1: "handle_call_tool env rules ''fill_permit_form'' (Some a) w =
           (Inr [PlainText (''Error: Permit not found: '' @ pid)], w)"
    using assms(1) by (simp add: handle_call_tool_def)
  have "''Error: Permit not found: '' @ pid = ''Error: '' @ ''Permit not found'' @ ('': '' @ pid)"
    by simp
  then have 2: "sublist ''Permit not found'' (''Error: Permit not found: '' @ pid)"
    unfolding sublist_def by blast
  from 1 2 show ?thesis by simp
qed

theorem fill_permit_form_unknown_id_witness:
  "handle_call_tool example_env [electrical, building] ''fill_permit_form''
       (Some (example_arguments\<lparr> permitId := Some ''zoning'' \<rparr>)) example_world =
     (Inr [PlainText ''Error: Permit not found: zoning''], example_world)"
proof -
  have i: "permitId (example_arguments\<lparr> permitId := Some ''zoning'' \<rparr>) = Some ''zoning''"
    by simp
  have n: "''zoning'' \<notin> p_id ` set [electrical, building]"
    by (simp add: electrical_def building_def)
  from fill_permit_form_unknown_id [OF i n, of example_env example_world]
  show ?thesis by simp
qed

text \<open>
  Claim C10. When the argument bag of \<^verbatim>\<open>preview_permit\<close>, \<^verbatim>\<open>fill_permit_form\<close> or
  \<^verbatim>\<open>validate_permit_data\<close> has no \<open>permitId\<close>, the lookup runs with \<^verbatim>\<open>None\<close> and finds
  nothing, and the response is the same \<open>Permit not found\<close> text as for an unknown id,
  with \<open>None\<close> in the place of the id.
\<close>

theorem missing_permitId_not_found:
  assumes "name \<in> {''preview_permit'', ''fill_permit_form'', ''validate_permit_data''}"
      and "permitId a = None"
  shows "get_permit_by_id rules (permitId a) = None
       \<and> handle_call_tool env rules name (Some a) w =
           (Inr [PlainText ''Error: Permit not found: None''], w)
       \<and> (\<forall>pid. pid \<notin> p_id ` set rules \<longrightarrow>
            handle_call_tool env rules name (Some (a\<lparr> permitId := Some pid \<rparr>)) w =
              (Inr [PlainText (''Error: Permit not found: '' @ pid)], w))"
proof -
  have nf: "\<And>b. get_permit_by_id rules (permitId b) = None \<Longrightarrow>
      handle_call_tool env rules name (Some b) w =
        (Inr [PlainText (''Error: Permit not found: '' @ str_opt (permitId b))], w)"
    using assms(1) by (auto simp: handle_call_tool_def dispatch_def Let_def)
  have 1: "get_permit_by_id rules (permitId a) = None" using assms(2) by simp
  have 2: "handle_call_tool env rules name (Some a) w =
           (Inr [PlainText ''Error: Permit not found: None''], w)"
    using nf[OF 1] assms(2) by simp
  have 3: "handle_call_tool env rules name (Some (a\<lparr> permitId := Some pid \<rparr>)) w =
              (Inr [PlainText (''Error: Permit not found: '' @ pid)], w)"
    if "pid \<notin> p_id ` set rules" for pid
    using nf[of "a\<lparr> permitId := Some pid \<rparr>"] that by (simp add: get_permit_by_id_None)
  from 1 2 3 show ?thesis by blast
qed

theorem missing_permitId_not_found_witness:
  "handle_call_tool example_env [electrical, building] ''validate_permit_data''
       (Some (example_arguments\<lparr> permitId := None \<rparr>)) example_world =
     (Inr [PlainText ''Error: Permit not found: None''], example_world)"
proof -
  have n: "''validate_permit_data'' \<in> {''preview_permit'', ''fill_permit_form'', ''validate_permit_data''}"
    by simp
  have i: "permitId (example_arguments\<lparr> permitId := None \<rparr>) = None"
    by simp
  from missing_permitId_not_found [OF n i, of "[electrical, building]" example_env example_world]
  show ?thesis by blast
qed

text \<open>
  Claim C8. For every tool name and argument bag \<^verbatim>\<open>handle_call_tool\<close> returns a response:
  no exception leaves it. An exception raised in the \<^verbatim>\<open>try\<close> block becomes the text
  \<open>Error: \<close> followed by its message, and a name that is none of the tools gives
  \<open>Error: Unknown tool: \<close> followed by the name.
\<close>

theorem handle_call_tool_never_raises:
  "(\<exists>response w'. handle_call_tool env rules name arguments w = (Inr response, w'))
   \<and> (\<forall>e w'. dispatch env rules name arguments w = (Inl e, w') \<longrightarrow>
         handle_call_tool env rules name arguments w = (Inr [PlainText (''Error: '' @ str_exn e)], w'))
   \<and> (name \<notin> set tool_names \<longrightarrow>
         handle_call_tool env rules name arguments w =
           (Inr [PlainText (''Error: Unknown tool: '' @ name)], w))"
proof -
  have 1: "\<exists>response w'. handle_call_tool env rules name arguments w = (Inr response, w')"
    by (cases "dispatch env rules name arguments w") (auto simp: handle_call_tool_def split: sum.splits)
  have 2: "\<forall>e w'. dispatch env rules name arguments w = (Inl e, w') \<longrightarrow>
         handle_call_tool env rules name arguments w = (Inr [PlainText (''Error: '' @ str_exn e)], w')"
    by (simp add: handle_call_tool_def)
  have 3: "name \<notin> set tool_names \<longrightarrow>
         handle_call_tool env rules name arguments w =
           (Inr [PlainText (''Error: Unknown tool: '' @ name)], w)"
    by (simp add: handle_call_tool_def dispatch_def tool_names_def)
  from 1 2 3 show ?thesis by blast
qed

theorem handle_call_tool_never_raises_witness:
  "''delete_permit'' \<notin> set tool_names
   \<and> handle_call_tool example_env [electrical, building] ''delete_permit'' None example_world =
       (Inr [PlainText ''Error: Unknown tool: delete_permit''], example_world)"
proof -
  have n: "''delete_permit'' \<notin> set tool_names"
    by (simp add: tool_names_def)
  from handle_call_tool_never_raises
    [of example_env "[electrical, building]" "''delete_permit''" None example_world] n
  show ?thesis by simp
qed

section \<open>Assembling and writing a permit\<close>

lemma map_of_fill_data:
  "map_of (fill_data env n D) =
     (map_of D)(''permitDate'' \<mapsto> PStr (strftime_mdY (now env n)),
                ''applicationDate'' \<mapsto> PStr (strftime_mdY (now env (n + 1))),
                ''currentDate'' \<mapsto> PStr (strftime_mdY (now env (n + 2))),
                ''year'' \<mapsto> PInt (int (dt_year (now env (n + 3)))))"
  by (simp add: fill_data_def update_conv')

lemma str_nat_small: "n < 10 \<Longrightarrow> str_nat n = [digit_char n]"
  by (simp add: str_nat.simps)

lemma str_nat_step: "10 \<le> n \<Longrightarrow> str_nat n = str_nat (n div 10) @ [digit_char (n mod 10)]"
  by (subst str_nat.simps) simp

lemma length_pad2: "n < 100 \<Longrightarrow> length (pad2 n) = 2"
  by (cases "n < 10") (simp_all add: pad2_def str_nat_small str_nat_step)

lemma length_str_nat_year: "1000 \<le> n \<Longrightarrow> n \<le> 9999 \<Longrightarrow> length (str_nat n) = 4"
proof -
  assume a: "1000 \<le> n" "n \<le> 9999"
  then have 1: "10 \<le> n" "10 \<le> n div 10" "10 \<le> n div 10 div 10" "n div 10 div 10 div 10 < 10"
    by auto
  show ?thesis
    by (simp add: str_nat_step[OF 1(1)] str_nat_step[OF 1(2)] str_nat_step[OF 1(3)] str_nat_small[OF 1(4)])
qed

lemma strftime_mdY_shape:
  assumes "clock_reading t"
  shows "length (strftime_mdY t) = 10 \<and> strftime_mdY t ! 2 = CHR ''/'' \<and>
         strftime_mdY t ! 5 = CHR ''/'' \<and> length (str_nat (dt_year t)) = 4"
proof -
  from assms have m: "length (pad2 (dt_month t)) = 2" and d: "length (pad2 (dt_day t)) = 2"
    and y: "length (str_nat (dt_year t)) = 4"
    by (simp_all add: clock_reading_def length_pad2 length_str_nat_year)
  show ?thesis
    by (simp add: strftime_mdY_def m d y nth_append)
qed

lemma strftime_Ymd_HMS_shape:
  assumes "clock_reading t"
  shows "length (strftime_Ymd_HMS t) = 15 \<and> strftime_Ymd_HMS t ! 8 = CHR ''-''"
proof -
  from assms have m: "length (pad2 (dt_month t)) = 2" and d: "length (pad2 (dt_day t)) = 2"
    and y: "length (str_nat (dt_year t)) = 4" and h: "length (pad2 (dt_hour t)) = 2"
    and mi: "length (pad2 (dt_minute t)) = 2" and se: "length (pad2 (dt_second t)) = 2"
    by (simp_all add: clock_reading_def length_pad2 length_str_nat_year)
  show ?thesis
    by (simp add: strftime_Ymd_HMS_def m d y h mi se nth_append)
qed

text \<open>
  Claim C4. When the template exists and loads, \<^verbatim>\<open>fill_permit\<close> calls the template engine
  once, with the payload \<open>fill_data\<close>: the project data with \<open>permitDate\<close>,
  \<open>applicationDate\<close> and \<open>currentDate\<close> set to the date of the clock readings of the call
  in the format month/day/year, and \<open>year\<close> set to the year as a number, whatever the
  caller supplied under these four keys; every other key keeps its value. For a clock
  reading the date is ten characters with the slashes after the two-digit month and day,
  and the year has four digits.
\<close>

theorem fill_permit_render_payload:
  assumes "template_exists env (templates_dir env template_name)"
      and "load_template env (templates_dir env template_name) = Inr doc"
  shows "rendered (snd (fill_permit env template_name permit_id permit_name project_data w)) =
           rendered w @ [(templates_dir env template_name, fill_data env (clock w) project_data)]
       \<and> map_of (fill_data env (clock w) project_data) =
           (map_of project_data)
             (''permitDate'' \<mapsto> PStr (strftime_mdY (now env (clock w))),
              ''applicationDate'' \<mapsto> PStr (strftime_mdY (now env (clock w + 1))),
              ''currentDate'' \<mapsto> PStr (strftime_mdY (now env (clock w + 2))),
              ''year'' \<mapsto> PInt (int (dt_year (now env (clock w + 3)))))
       \<and> (\<forall>k. k \<notin> reserved_keys \<longrightarrow>
             map_of (fill_data env (clock w) project_data) k = map_of project_data k)
       \<and> (\<forall>n. clock_reading (now env n) \<longrightarrow>
             length (strftime_mdY (now env n)) = 10 \<and>
             strftime_mdY (now env n) ! 2 = CHR ''/'' \<and>
             strftime_mdY (now env n) ! 5 = CHR ''/'' \<and>
             length (str_nat (dt_year (now env n))) = 4)"
proof -
  have 1: "rendered (snd (fill_permit env template_name permit_id permit_name project_data w)) =
           rendered w @ [(templates_dir env template_name, fill_data env (clock w) project_data)]"
    using assms by (simp add: fill_permit_def Let_def split: sum.splits option.splits)
  have 2: "\<forall>k. k \<notin> reserved_keys \<longrightarrow>
             map_of (fill_data env (clock w) project_data) k = map_of project_data k"
    by (simp add: map_of_fill_data reserved_keys_def)
  have 3: "\<forall>n. clock_reading (now env n) \<longrightarrow>
             length (strftime_mdY (now env n)) = 10 \<and>
             strftime_mdY (now env n) ! 2 = CHR ''/'' \<and>
             strftime_mdY (now env n) ! 5 = CHR ''/'' \<and>
             length (str_nat (dt_year (now env n))) = 4"
    using strftime_mdY_shape by blast
  from 1 2 3 show ?thesis by (simp add: map_of_fill_data)
qed

theorem fill_permit_render_payload_witness:
  "rendered (snd (fill_permit example_env ''building.docx'' ''building'' ''Building Permit''
                    jane example_world)) =
     [(''templates/building.docx'',
       [(''ownerName'', PStr ''Jane''), (''year'', PInt 2024), (''note'', PInt 0),
        (''permitDate'', PStr ''03/07/2024''), (''applicationDate'', PStr ''03/07/2024''),
        (''currentDate'', PStr ''03/07/2024'')])]
   \<and> ''note'' \<notin> reserved_keys
   \<and> clock_reading (now example_env 0)
   \<and> length (strftime_mdY (now example_env 0)) = 10"
proof -
  have e: "template_exists example_env (templates_dir example_env ''building.docx'')"
    by (simp add: example_env_def)
  have l: "load_template example_env (templates_dir example_env ''building.docx'') =
             Inr (''templates/building.docx'', [])"
    by (simp add: example_env_def)
  have t: "templates_dir example_env ''building.docx'' = ''templates/building.docx''"
    by (simp add: example_env_def)
  have fd: "fill_data example_env 0 jane =
       [(''ownerName'', PStr ''Jane''), (''year'', PInt 2024), (''note'', PInt 0),
        (''permitDate'', PStr ''03/07/2024''), (''applicationDate'', PStr ''03/07/2024''),
        (''currentDate'', PStr ''03/07/2024'')]"
    by code_simp
  have k: "''note'' \<notin> reserved_keys"
    by (simp add: reserved_keys_def)
  have c: "clock_reading (now example_env 0)"
    by (simp add: example_env_def clock_reading_def)
  from fill_permit_render_payload [OF e l, of "''building''" "''Building Permit''" jane example_world]
  have "rendered (snd (fill_permit example_env ''building.docx'' ''building'' ''Building Permit''
                    jane example_world)) =
          rendered example_world @
            [(templates_dir example_env ''building.docx'', fill_data example_env (clock example_world) jane)]"
    and "\<forall>n. clock_reading (now example_env n) \<longrightarrow> length (strftime_mdY (now example_env n)) = 10"
    by blast+
  with k c show ?thesis by (simp add: example_world_def t fd)
qed

lemma fill_permit_Inr:
  assumes "fill_permit env template_name permit_id permit_name project_data w = (Inr result, w')"
  shows "\<exists>doc. result =
           [(''success'', PBool True),
            (''permitName'', PStr permit_name),
            (''outputFile'', PStr (output_filename permit_id (strftime_Ymd_HMS (now env (clock w + 4))))),
            (''outputPath'', PStr (absolute env (output_dir env
                (output_filename permit_id (strftime_Ymd_HMS (now env (clock w + 4))))))),
            (''message'', PStr (permit_name @ '' has been filled and saved''))]
         \<and> files w' = AList.update (output_dir env
                (output_filename permit_id (strftime_Ymd_HMS (now env (clock w + 4))))) doc (files w)"
  using assms
  by (auto simp: fill_permit_def Let_def split: if_splits sum.splits option.splits)

text \<open>
  Claim C9. A successful \<^verbatim>\<open>fill_permit\<close> names its output file by the permit id, the
  text \<open>-permit-\<close>, the time stamp of the fifth clock reading of the call in the form
  year, month, day, hyphen, hour, minute, second, and \<open>.docx\<close>. So two successful
  submissions with different permit ids and the same time stamp have different output
  file names.
\<close>

theorem fill_permit_output_filename:
  assumes "fill_permit env template1 id1 name1 data1 w1 = (Inr result1, w1')"
      and "fill_permit env template2 id2 name2 data2 w2 = (Inr result2, w2')"
  shows "map_of result1 ''outputFile'' =
           Some (PStr (id1 @ ''-permit-'' @ strftime_Ymd_HMS (now env (clock w1 + 4)) @ ''.docx''))
       \<and> map_of result2 ''outputFile'' =
           Some (PStr (id2 @ ''-permit-'' @ strftime_Ymd_HMS (now env (clock w2 + 4)) @ ''.docx''))
       \<and> (id1 \<noteq> id2 \<and>
            strftime_Ymd_HMS (now env (clock w1 + 4)) = strftime_Ymd_HMS (now env (clock w2 + 4))
            \<longrightarrow> map_of result1 ''outputFile'' \<noteq> map_of result2 ''outputFile'')
       \<and> (\<forall>n. clock_reading (now env n) \<longrightarrow>
             length (strftime_Ymd_HMS (now env n)) = 15 \<and> strftime_Ymd_HMS (now env n) ! 8 = CHR ''-'')"
proof -
  from fill_permit_Inr [OF assms(1)] have 1: "map_of result1 ''outputFile'' =
           Some (PStr (id1 @ ''-permit-'' @ strftime_Ymd_HMS (now env (clock w1 + 4)) @ ''.docx''))"
    by (auto simp: output_filename_def)
  from fill_permit_Inr [OF assms(2)] have 2: "map_of result2 ''outputFile'' =
           Some (PStr (id2 @ ''-permit-'' @ strftime_Ymd_HMS (now env (clock w2 + 4)) @ ''.docx''))"
    by (auto simp: output_filename_def)
  have 3: "id1 \<noteq> id2 \<and>
            strftime_Ymd_HMS (now env (clock w1 + 4)) = strftime_Ymd_HMS (now env (clock w2 + 4))
            \<longrightarrow> map_of result1 ''outputFile'' \<noteq> map_of result2 ''outputFile''"
    unfolding 1 2 by simp
  have 4: "\<forall>n. clock_reading (now env n) \<longrightarrow>
             length (strftime_Ymd_HMS (now env n)) = 15 \<and> strftime_Ymd_HMS (now env n) ! 8 = CHR ''-''"
    using strftime_Ymd_HMS_shape by blast
  from 1 2 3 4 show ?thesis by blast
qed

theorem fill_permit_output_filename_witness:
  "\<exists>result1 w1' result2 w2'.
     fill_permit example_env ''building.docx'' ''building'' ''Building Permit'' jane example_world
       = (Inr result1, w1')
   \<and> fill_permit example_env ''hvac.docx'' ''hvac'' ''HVAC Permit'' jane example_world
       = (Inr result2, w2')
   \<and> map_of result1 ''outputFile'' = Some (PStr ''building-permit-20240307-101502.docx'')
   \<and> map_of result2 ''outputFile'' = Some (PStr ''hvac-permit-20240307-101502.docx'')
   \<and> map_of result1 ''outputFile'' \<noteq> map_of result2 ''outputFile''"
proof -
  have "fst (fill_permit example_env ''building.docx'' ''building'' ''Building Permit'' jane
               example_world) =
          Inr [(''success'', PBool True), (''permitName'', PStr ''Building Permit''),
               (''outputFile'', PStr ''building-permit-20240307-101502.docx''),
               (''outputPath'', PStr ''/srv/permits/output/building-permit-20240307-101502.docx''),
               (''message'', PStr ''Building Permit has been filled and saved'')]"
    by code_simp
  then obtain result1 w1' where
    f1: "fill_permit example_env ''building.docx'' ''building'' ''Building Permit'' jane example_world
           = (Inr result1, w1')"
    by (cases "fill_permit example_env ''building.docx'' ''building'' ''Building Permit'' jane
                 example_world") auto
  have "fst (fill_permit example_env ''hvac.docx'' ''hvac'' ''HVAC Permit'' jane example_world) =
          Inr [(''success'', PBool True), (''permitName'', PStr ''HVAC Permit''),
               (''outputFile'', PStr ''hvac-permit-20240307-101502.docx''),
               (''outputPath'', PStr ''/srv/permits/output/hvac-permit-20240307-101502.docx''),
               (''message'', PStr ''HVAC Permit has been filled and saved'')]"
    by code_simp
  then obtain result2 w2' where
    f2: "fill_permit example_env ''hvac.docx'' ''hvac'' ''HVAC Permit'' jane example_world
           = (Inr result2, w2')"
    by (cases "fill_permit example_env ''hvac.docx'' ''hvac'' ''HVAC Permit'' jane example_world")
       auto
  have ts: "strftime_Ymd_HMS (now example_env (clock example_world + 4)) = ''20240307-101502''"
    by code_simp
  from fill_permit_output_filename [OF f1 f2]
  have "map_of result1 ''outputFile'' = Some (PStr ''building-permit-20240307-101502.docx'')"
    and "map_of result2 ''outputFile'' = Some (PStr ''hvac-permit-20240307-101502.docx'')"
    by (simp_all add: ts)
  with f1 f2 show ?thesis by auto
qed

section \<open>Filling every required permit\<close>

lemma identify_permits_ids:
  assumes "info \<in> set (identify_permits rules d wt)"
  shows "\<exists>p. get_permit_by_id rules (Some (info_id info)) = Some p"
proof -
  from assms obtain p where p: "p \<in> set rules" and i: "info = info_of p"
    by (auto simp: identify_permits_def identify_loop_filter Let_def)
  from p have "p_id p \<in> p_id ` set rules" by simp
  then have "get_permit_by_id rules (Some (p_id p)) \<noteq> None"
    by (simp add: get_permit_by_id_None)
  with i show ?thesis by (auto simp: info_of_def)
qed

lemma missingFields_filter:
  "missingFields (validate_required_fields D R) = filter (field_missing D) R"
  by (simp add: validate_required_fields_def Let_def)

lemma valid_filter:
  "valid (validate_required_fields D R) \<longleftrightarrow> filter (field_missing D) R = []"
  by (simp add: validate_required_fields_def Let_def)

lemma fill_one_permit_entry:
  assumes "get_permit_by_id rules (Some (info_id info)) = Some p"
      and "fill_one env rules data info w = (r, w1)"
  shows "permit_entry env rules data info w
           (case r of Inr entry \<Rightarrow> entry | Inl e \<Rightarrow> error_entry info e) w1"
proof (cases "filter (field_missing data) (p_requiredFields p) = []")
  case True
  obtain o2 w2 where f: "fill_permit env (p_template p) (p_id p) (p_name p) data w = (o2, w2)"
    by (cases "fill_permit env (p_template p) (p_id p) (p_name p) data w")
  show ?thesis
  proof (cases o2)
    case (Inl e)
    with assms True f have "r = Inl e" and "w1 = w2"
      by (auto simp: fill_one_def Let_def valid_filter)
    with assms(1) True f Inl show ?thesis
      by (simp add: permit_entry_def error_entry_def)
  next
    case (Inr result)
    with assms True f have "r = Inr (PDict result)" and "w1 = w2"
      by (auto simp: fill_one_def Let_def valid_filter)
    with assms(1) True f Inr show ?thesis
      by (simp add: permit_entry_def)
  qed
next
  case False
  with assms have "r = Inr (missing_entry p (filter (field_missing data) (p_requiredFields p)))"
    and "w1 = w"
    by (auto simp: fill_one_def Let_def valid_filter missingFields_filter)
  with assms(1) False show ?thesis
    by (simp add: permit_entry_def missing_entry_def)
qed

lemma processed_in_turn_length:
  "processed_in_turn env rules data infos w entries w' \<Longrightarrow> length entries = length infos"
  by (induction rule: processed_in_turn.induct) simp_all

lemma fill_all_loop_processed:
  assumes "\<forall>info \<in> set infos. \<exists>p. get_permit_by_id rules (Some (info_id info)) = Some p"
  shows "\<exists>new w'. fill_all_loop env rules data infos results w = (results @ new, w')
           \<and> processed_in_turn env rules data infos w new w'"
  using assms
proof (induction infos arbitrary: results w)
  case Nil
  then show ?case by (simp add: processed_in_turn.none_left)
next
  case (Cons info rest)
  from Cons.prems obtain p where p: "get_permit_by_id rules (Some (info_id info)) = Some p"
    by auto
  from Cons.prems have rest: "\<forall>i \<in> set rest. \<exists>p. get_permit_by_id rules (Some (info_id i)) = Some p"
    by simp
  obtain r w1 where f: "fill_one env rules data info w = (r, w1)"
    by (cases "fill_one env rules data info w")
  define entry where "entry = (case r of Inr x \<Rightarrow> x | Inl e \<Rightarrow> error_entry info e)"
  have pe: "permit_entry env rules data info w entry w1"
    unfolding entry_def by (rule fill_one_permit_entry [OF p f])
  have step: "fill_all_loop env rules data (info # rest) results w =
              fill_all_loop env rules data rest (results @ [entry]) w1"
    using f by (cases r) (simp_all add: entry_def)
  from Cons.IH [OF rest, of "results @ [entry]" w1] obtain new w' where
    l: "fill_all_loop env rules data rest (results @ [entry]) w1 = ((results @ [entry]) @ new, w')"
    and a: "processed_in_turn env rules data rest w1 new w'"
    by blast
  from step l have "fill_all_loop env rules data (info # rest) results w = (results @ (entry # new), w')"
    by simp
  moreover from pe a have "processed_in_turn env rules data (info # rest) w (entry # new) w'"
    by (rule processed_in_turn.next_permit)
  ultimately show ?case by blast
qed

text \<open>
  Claim C6. When \<^verbatim>\<open>fill_all_required_permits\<close> resolves at least one permit, the response
  carries one result entry for each resolved permit, in order, and \<open>totalPermits\<close> is
  their number. The permits are processed in turn from the world of the call: a permit
  with a missing required field gets the failure entry with its missing fields, a permit
  whose \<open>fill_permit\<close> raises gets the failure entry with the message of that exception,
  a permit whose \<open>fill_permit\<close> returns gets that result, and in each case the next permit
  is processed in the world this one left.
\<close>

theorem fill_all_required_permits_one_entry_each:
  assumes "required = identify_permits rules (get_default (projectDescription a) [])
                        (Some (get_default (workTypes a) []))"
      and "required \<noteq> []"
  shows "\<exists>results w'.
           handle_call_tool env rules ''fill_all_required_permits'' (Some a) w =
             (Inr [JsonText (PDict
                [(''totalPermits'', PInt (int (length required))),
                 (''results'', PList results),
                 (''message'', PStr ''All required permits have been processed'')])], w')
           \<and> length results = length required
           \<and> processed_in_turn env rules (get_default (projectData a) []) required w results w'"
proof -
  have "\<forall>info \<in> set required. \<exists>p. get_permit_by_id rules (Some (info_id info)) = Some p"
    unfolding assms(1) by (blast intro: identify_permits_ids)
  from fill_all_loop_processed [OF this, of env "get_default (projectData a) []" "[]" w]
  obtain results w' where
    l: "fill_all_loop env rules (get_default (projectData a) []) required [] w = (results, w')"
    and a: "processed_in_turn env rules (get_default (projectData a) []) required w results w'"
    by auto
  from a have len: "length results = length required"
    by (rule processed_in_turn_length)
  have "dispatch env rules ''fill_all_required_permits'' (Some a) w =
             (Inr [JsonText (PDict
                [(''totalPermits'', PInt (int (length required))),
                 (''results'', PList results),
                 (''message'', PStr ''All required permits have been processed'')])], w')"
    using assms(2) l len unfolding assms(1)
    by (simp add: dispatch_def Let_def)
  then have "handle_call_tool env rules ''fill_all_required_permits'' (Some a) w =
             (Inr [JsonText (PDict
                [(''totalPermits'', PInt (int (length required))),
                 (''results'', PList results),
                 (''message'', PStr ''All required permits have been processed'')])], w')"
    by (simp add: handle_call_tool_def)
  with a len show ?thesis by blast
qed

theorem fill_all_required_permits_one_entry_each_witness:
  "\<exists>w'.
     handle_call_tool flaky_env [electrical, building, hvac] ''fill_all_required_permits''
         (Some batch_arguments) example_world =
       (Inr [JsonText (PDict
          [(''totalPermits'', PInt 3),
           (''results'', PList
              [PDict [(''success'', PBool False),
                      (''permitId'', PStr ''electrical''),
                      (''permitName'', PStr ''Electrical Permit''),
                      (''error'', PStr ''Missing required fields''),
                      (''missingFields'', PList [PStr ''electricianLicense''])],
               PDict [(''success'', PBool False),
                      (''permitId'', PStr ''building''),
                      (''error'', PStr ''disk full'')],
               PDict [(''success'', PBool True),
                      (''permitName'', PStr ''HVAC Permit''),
                      (''outputFile'', PStr ''hvac-permit-20240307-101502.docx''),
                      (''outputPath'', PStr ''/srv/permits/output/hvac-permit-20240307-101502.docx''),
                      (''message'', PStr ''HVAC Permit has been filled and saved'')]]),
           (''message'', PStr ''All required permits have been processed'')])], w')
     \<and> processed_in_turn flaky_env [electrical, building, hvac] jane
         [info_of electrical, info_of building, info_of hvac] example_world
         [PDict [(''success'', PBool False),
                 (''permitId'', PStr ''electrical''),
                 (''permitName'', PStr ''Electrical Permit''),
                 (''error'', PStr ''Missing required fields''),
                 (''missingFields'', PList [PStr ''electricianLicense''])],
          PDict [(''success'', PBool False),
                 (''permitId'', PStr ''building''),
                 (''error'', PStr ''disk full'')],
          PDict [(''success'', PBool True),
                 (''permitName'', PStr ''HVAC Permit''),
                 (''outputFile'', PStr ''hvac-permit-20240307-101502.docx''),
                 (''outputPath'', PStr ''/srv/permits/output/hvac-permit-20240307-101502.docx''),
                 (''message'', PStr ''HVAC Permit has been filled and saved'')]]
         w'"
proof -
  have r: "[info_of electrical, info_of building, info_of hvac] =
             identify_permits [electrical, building, hvac]
               (get_default (projectDescription batch_arguments) [])
               (Some (get_default (workTypes batch_arguments) []))"
    by code_simp
  have n: "[info_of electrical, info_of building, info_of hvac] \<noteq> []"
    by simp
  have d: "get_default (projectData batch_arguments) [] = jane"
    by (simp add: batch_arguments_def)
  from fill_all_required_permits_one_entry_each [OF r n, of flaky_env example_world]
  obtain results w' where
    h: "handle_call_tool flaky_env [electrical, building, hvac] ''fill_all_required_permits''
          (Some batch_arguments) example_world =
        (Inr [JsonText (PDict
           [(''totalPermits'', PInt 3),
            (''results'', PList results),
            (''message'', PStr ''All required permits have been processed'')])], w')"
    and p: "processed_in_turn flaky_env [electrical, building, hvac] jane
              [info_of electrical, info_of building, info_of hvac] example_world results w'"
    by (auto simp: d)
  have c: "fst (handle_call_tool flaky_env [electrical, building, hvac]
                  ''fill_all_required_permits'' (Some batch_arguments) example_world) =
      Inr [JsonText (PDict
          [(''totalPermits'', PInt 3),
           (''results'', PList
              [PDict [(''success'', PBool False),
                      (''permitId'', PStr ''electrical''),
                      (''permitName'', PStr ''Electrical Permit''),
                      (''error'', PStr ''Missing required fields''),
                      (''missingFields'', PList [PStr ''electricianLicense''])],
               PDict [(''success'', PBool False),
                      (''permitId'', PStr ''building''),
                      (''error'', PStr ''disk full'')],
               PDict [(''success'', PBool True),
                      (''permitName'', PStr ''HVAC Permit''),
                      (''outputFile'', PStr ''hvac-permit-20240307-101502.docx''),
                      (''outputPath'', PStr ''/srv/permits/output/hvac-permit-20240307-101502.docx''),
                      (''message'', PStr ''HVAC Permit has been filled and saved'')]]),
           (''message'', PStr ''All required permits have been processed'')])]"
    by code_simp
  from h c have "results =
              [PDict [(''success'', PBool False),
                      (''permitId'', PStr ''electrical''),
                      (''permitName'', PStr ''Electrical Permit''),
                      (''error'', PStr ''Missing required fields''),
                      (''missingFields'', PList [PStr ''electricianLicense''])],
               PDict [(''success'', PBool False),
                      (''permitId'', PStr ''building''),
                      (''error'', PStr ''disk full'')],
               PDict [(''success'', PBool True),
                      (''permitName'', PStr ''HVAC Permit''),
                      (''outputFile'', PStr ''hvac-permit-20240307-101502.docx''),
                      (''outputPath'', PStr ''/srv/permits/output/hvac-permit-20240307-101502.docx''),
                      (''message'', PStr ''HVAC Permit has been filled and saved'')]]"
    by simp
  with h p show ?thesis by blast
qed

text \<open>The entries and the final world are determined by the permits and the first world.\<close>

lemma permit_entry_determines:
  assumes "permit_entry env rules data info w e1 v1" and "permit_entry env rules data info w e2 v2"
  shows "e1 = e2 \<and> v1 = v2"
  using assms
  by (auto simp: permit_entry_def split: if_splits prod.splits sum.splits)

lemma processed_in_turn_determines:
  assumes "processed_in_turn env rules data infos w es1 v1"
      and "processed_in_turn env rules data infos w es2 v2"
  shows "es1 = es2 \<and> v1 = v2"
  using assms
proof (induction arbitrary: es2 v2 rule: processed_in_turn.induct)
  case (none_left w)
  then show ?case by (auto elim: processed_in_turn.cases)
next
  case (next_permit info w entry w1 rest entries w')
  from next_permit.prems obtain entry2 u1 entries2 where
    e: "es2 = entry2 # entries2" and p: "permit_entry env rules data info w entry2 u1"
    and r: "processed_in_turn env rules data rest u1 entries2 v2"
    by (auto elim: processed_in_turn.cases)
  from permit_entry_determines [OF next_permit.hyps(1) p] have "entry = entry2" and "w1 = u1"
    by simp_all
  with next_permit.IH [of entries2 v2] r e show ?case by simp
qed

text \<open>
  The scenario of the specification: the electrical permit lacks a field, the building
  permit is complete; the first gets its failure entry, the second is filled.
\<close>

lemma fill_all_required_permits_scenario:
  "fst (handle_call_tool example_env [electrical, building] ''fill_all_required_permits''
       (Some example_arguments) example_world) =
   Inr [JsonText (PDict
      [(''totalPermits'', PInt 2),
       (''results'', PList
          [PDict [(''success'', PBool False),
                  (''permitId'', PStr ''electrical''),
                  (''permitName'', PStr ''Electrical Permit''),
                  (''error'', PStr ''Missing required fields''),
                  (''missingFields'', PList [PStr ''electricianLicense''])],
           PDict [(''success'', PBool True),
                  (''permitName'', PStr ''Building Permit''),
                  (''outputFile'', PStr ''building-permit-20240307-101502.docx''),
                  (''outputPath'', PStr ''/srv/permits/output/building-permit-20240307-101502.docx''),
                  (''message'', PStr ''Building Permit has been filled and saved'')]]),
       (''message'', PStr ''All required permits have been processed'')])]"
  by code_simp

end
